theory Spec2Isabelle
  imports Main "HOL-Library.Word" "HOL-Library.Signed_Division"
begin

unbundle bit_operations_syntax

section \<open>Data model of main.cpp\<close>

text \<open>
  \<^verbatim>\<open>int\<close> and \<^verbatim>\<open>clockid_t\<close> are 32-bit integers, \<^verbatim>\<open>time_t\<close>, \<^verbatim>\<open>long\<close> and the
  representation of \<^verbatim>\<open>std::chrono::nanoseconds\<close> are 64-bit integers (LP64 Linux).
  A word carries the bit pattern; \<open>sint\<close> reads it as the signed value the C++ code sees.
\<close>

type_synonym cint = "32 word"
type_synonym clockid_t = "32 word"
type_synonym clong = "64 word"

record timespec =
  tv_sec :: clong
  tv_nsec :: clong

text \<open>\<^verbatim>\<open>memset(ts, 0, sizeof(struct timespec))\<close> leaves this value in the buffer.\<close>

definition zero_timespec :: timespec where
  "zero_timespec = \<lparr>tv_sec = 0, tv_nsec = 0\<rparr>"

text \<open>\<^verbatim>\<open>#define FD_TO_CLOCKID(fd) ((clockid_t)((((unsigned int)~fd) << 3) | 3))\<close>\<close>

definition FD_TO_CLOCKID :: "cint \<Rightarrow> clockid_t" where
  "FD_TO_CLOCKID fd = (push_bit 3 (NOT fd)) OR 3"

text \<open>\<^verbatim>\<open>#define CLOCK_INVALID -1\<close>, and \<^verbatim>\<open>CLOCK_REALTIME\<close> of \<^verbatim>\<open>time.h\<close>.\<close>

definition CLOCK_INVALID :: clockid_t where
  "CLOCK_INVALID = - 1"

definition CLOCK_REALTIME :: clockid_t where
  "CLOCK_REALTIME = 0"

section \<open>The operating system as seen by one call\<close>

text \<open>
  The program is deterministic up to what the system calls answer. One \<open>os\<close> value fixes
  these answers:
  \<^item> \<open>os_open\<close>: the value \<^verbatim>\<open>open(DEV_PATH, O_RDWR)\<close> returns (a descriptor, or a
    negative number on failure);
  \<^item> \<open>os_clock_gettime clk buf\<close>: the return code of \<^verbatim>\<open>clock_gettime(clk, &buf)\<close> and the
    contents of the buffer afterwards, given its contents \<open>buf\<close> before;
  \<^item> \<open>os_now\<close>: the count of \<^verbatim>\<open>std::chrono::system_clock::now().time_since_epoch()\<close>
    in nanoseconds;
  \<^item> \<open>os_localtime t\<close>: the \<^verbatim>\<open>struct tm\<close> that \<^verbatim>\<open>localtime(&t)\<close> points to, or \<open>None\<close>
    when \<^verbatim>\<open>localtime\<close> returns a null pointer (as it does when the year of \<open>t\<close> does not
    fit an \<^verbatim>\<open>int\<close>).
\<close>

record tm =
  tm_year :: cint
  tm_mon :: cint
  tm_mday :: cint
  tm_hour :: cint
  tm_min :: cint
  tm_sec :: cint

record os =
  os_open :: cint
  os_clock_gettime :: "clockid_t \<Rightarrow> timespec \<Rightarrow> cint \<times> timespec"
  os_now :: clong
  os_localtime :: "clong \<Rightarrow> tm option"

text \<open>
  What a run does that is visible from outside: system calls made, lines written.
  \<open>OutPrintTime\<close> carries the six numbers of the line \<^verbatim>\<open>PrintTime\<close> writes.
\<close>

datatype event =
    SysOpen
  | SysClockGettime clockid_t
  | SysNow
  | OutOpenFd cint
  | ErrOpenFailed
  | ErrGettimeFailed
  | ErrNoClockId
  | OutPtpTime timespec
  | OutRealTime timespec
  | OutSystemClockTime timespec
  | OutPrintTime cint cint cint cint cint cint

text \<open>
  How a run of \<^verbatim>\<open>main\<close> ends: it returns an exit code, or it dereferences a null
  pointer (on Linux the process is then killed by SIGSEGV and \<^verbatim>\<open>main\<close> never returns).
\<close>

datatype outcome = Exited cint | Crashed

section \<open>GetPtpTime\<close>

text \<open>
  The result of one call of \<^verbatim>\<open>GetPtpTime(ts)\<close>: the function-local static \<^verbatim>\<open>clkid\<close>
  after the call, the returned value, the buffer \<^verbatim>\<open>*ts\<close> after the call (\<open>None\<close> for a
  null pointer) and the events in program order.
\<close>

record call_result =
  static_clkid :: clockid_t
  ret :: clockid_t
  ts_out :: "timespec option"
  trace :: "event list"

text \<open>
  Lines 57 to 65: the read through the identifier \<open>clkid\<close>. The argument \<open>ev\<close> holds the
  events of the first half of the call.
\<close>

definition read_time :: "os \<Rightarrow> clockid_t \<Rightarrow> timespec option \<Rightarrow> event list \<Rightarrow> call_result" where
  "read_time w clkid ts ev =
     (case ts of
        None \<Rightarrow> \<lparr>static_clkid = clkid, ret = clkid, ts_out = None, trace = ev\<rparr>
      | Some old \<Rightarrow>
          (let (rc, buf) = os_clock_gettime w clkid zero_timespec in
           if rc <s 0
           then \<lparr>static_clkid = clkid, ret = CLOCK_INVALID, ts_out = Some buf,
                 trace = ev @ [SysClockGettime clkid, ErrGettimeFailed]\<rparr>
           else \<lparr>static_clkid = clkid, ret = clkid, ts_out = Some buf,
                 trace = ev @ [SysClockGettime clkid]\<rparr>))"

text \<open>
  The whole function; \<open>clkid\<close> is the static variable before the call
  (\<open>CLOCK_INVALID\<close> at process start).
\<close>

definition GetPtpTime :: "os \<Rightarrow> clockid_t \<Rightarrow> timespec option \<Rightarrow> call_result" where
  "GetPtpTime w clkid ts =
     (if clkid = CLOCK_INVALID then
        (let fd = os_open w in
         if fd <s 0
         then \<lparr>static_clkid = clkid, ret = CLOCK_INVALID, ts_out = ts,
               trace = [SysOpen, OutOpenFd fd, ErrOpenFailed]\<rparr>
         else read_time w (FD_TO_CLOCKID fd) ts [SysOpen, OutOpenFd fd])
      else read_time w clkid ts [])"

text \<open>
  A sequence of calls in one process: each call has its own pointer argument and its own
  answers of the system; the static variable is threaded through.
\<close>

fun run_calls :: "clockid_t \<Rightarrow> (os \<times> timespec option) list \<Rightarrow> call_result list" where
  "run_calls clkid [] = []"
| "run_calls clkid ((w, ts) # cs) =
     (let r = GetPtpTime w clkid ts in r # run_calls (static_clkid r) cs)"

section \<open>PrintTime and main\<close>

text \<open>
  \<^verbatim>\<open>PrintTime\<close> (lines 68 to 78) passes \<^verbatim>\<open>ts.tv_sec\<close> to \<^verbatim>\<open>localtime\<close> and reads the
  fields of the result without testing it for null. The result is the line written, or
  \<open>None\<close> when the pointer is null and the function does not return.
\<close>

definition PrintTime :: "os \<Rightarrow> timespec \<Rightarrow> event list option" where
  "PrintTime w ts =
     (case os_localtime w (tv_sec ts) of
        None \<Rightarrow> None
      | Some tm_info \<Rightarrow>
          Some [OutPrintTime (tm_year tm_info + 1900) (tm_mon tm_info + 1) (tm_mday tm_info)
                  (tm_hour tm_info) (tm_min tm_info) (tm_sec tm_info)])"

text \<open>
  The C++ operators \<^verbatim>\<open>/\<close> (inside \<^verbatim>\<open>duration_cast\<close>) and \<^verbatim>\<open>%\<close> truncate towards zero:
  \<open>sdiv\<close> and \<open>smod\<close> on the signed value.
\<close>

definition system_clock_timespec :: "clong \<Rightarrow> timespec" where
  "system_clock_timespec duration_ns =
     \<lparr>tv_sec = word_of_int (sint duration_ns sdiv 1000000000),
      tv_nsec = word_of_int (sint duration_ns smod 1000000000)\<rparr>"

text \<open>
  \<open>ts0\<close> and \<open>ts20\<close> are the contents of the uninitialised locals \<^verbatim>\<open>ts\<close> and \<^verbatim>\<open>ts2\<close>;
  the return value of \<^verbatim>\<open>clock_gettime(CLOCK_REALTIME, &ts2)\<close> is not looked at. The
  result is how the run ends and the events up to that point.
\<close>

definition main :: "os \<Rightarrow> timespec \<Rightarrow> timespec \<Rightarrow> outcome \<times> event list" where
  "main w ts0 ts20 =
     (let r = GetPtpTime w CLOCK_INVALID (Some ts0);
          ts = (case ts_out r of Some t \<Rightarrow> t | None \<Rightarrow> ts0)
      in if ret r = CLOCK_INVALID then (Exited 1, trace r @ [ErrNoClockId])
         else
           (let tr1 = trace r @ [OutPtpTime ts] in
            case PrintTime w ts of
              None \<Rightarrow> (Crashed, tr1)
            | Some p1 \<Rightarrow>
                (let ts2 = snd (os_clock_gettime w CLOCK_REALTIME ts20);
                     tr2 = tr1 @ p1 @ [SysClockGettime CLOCK_REALTIME, OutRealTime ts2] in
                 case PrintTime w ts2 of
                   None \<Rightarrow> (Crashed, tr2)
                 | Some p2 \<Rightarrow>
                     (let ts3 = system_clock_timespec (os_now w);
                          tr3 = tr2 @ p2 @ [SysNow, OutSystemClockTime ts3] in
                      case PrintTime w ts3 of
                        None \<Rightarrow> (Crashed, tr3)
                      | Some p3 \<Rightarrow> (Exited 0, tr3 @ p3)))))"

section \<open>The inverse of the identifier derivation\<close>

text \<open>
  The mapping back from an identifier to a descriptor. It is not part of main.cpp (the
  kernel does this step); it is defined here only to state that a descriptor can be
  recovered: drop the three tag bits, invert, keep the 29 bits that survived the shift.
\<close>

definition CLOCKID_TO_FD :: "clockid_t \<Rightarrow> cint" where
  "CLOCKID_TO_FD clk = take_bit 29 (NOT (drop_bit 3 clk))"

section \<open>Observations on a run\<close>

text \<open>
  The hardware-clock path of \<^verbatim>\<open>main\<close> fails when the open fails, or the open succeeds
  and \<^verbatim>\<open>clock_gettime\<close> on the derived identifier (given the zeroed buffer) fails.
  The wall-clock events of a trace are the two wall-clock reads and the two lines that
  report them.
\<close>

fun is_wall_clock_event :: "event \<Rightarrow> bool" where
  "is_wall_clock_event (SysClockGettime c) = (c = CLOCK_REALTIME)"
| "is_wall_clock_event SysNow = True"
| "is_wall_clock_event (OutRealTime t) = True"
| "is_wall_clock_event (OutSystemClockTime t) = True"
| "is_wall_clock_event e = False"

definition hardware_clock_fails :: "os \<Rightarrow> bool" where
  "hardware_clock_fails w \<longleftrightarrow>
     os_open w <s 0 \<or> fst (os_clock_gettime w (FD_TO_CLOCKID (os_open w)) zero_timespec) <s 0"

section \<open>Example environments\<close>

text \<open>
  Concrete answers of the system, used to run the program on explicit inputs.
  \<open>localtime_example\<close> answers for the two times the examples print
  (2023-11-14 22:13:20 and 1970-01-01 00:00:00, in UTC) and with a null pointer elsewhere.
\<close>

definition gettime_fails :: "clockid_t \<Rightarrow> timespec \<Rightarrow> cint \<times> timespec" where
  "gettime_fails clk buf = (- 1, buf)"

definition gettime_writes_then_fails :: "clockid_t \<Rightarrow> timespec \<Rightarrow> cint \<times> timespec" where
  "gettime_writes_then_fails clk buf = (- 1, \<lparr>tv_sec = 9, tv_nsec = 9\<rparr>)"

definition gettime_ok :: "clockid_t \<Rightarrow> timespec \<Rightarrow> cint \<times> timespec" where
  "gettime_ok clk buf = (0, \<lparr>tv_sec = 1700000000, tv_nsec = 5\<rparr>)"

definition localtime_example :: "clong \<Rightarrow> tm option" where
  "localtime_example t =
     (if t = 1700000000
      then Some \<lparr>tm_year = 123, tm_mon = 10, tm_mday = 14,
                 tm_hour = 22, tm_min = 13, tm_sec = 20\<rparr>
      else if t = 0
      then Some \<lparr>tm_year = 70, tm_mon = 0, tm_mday = 1, tm_hour = 0, tm_min = 0, tm_sec = 0\<rparr>
      else None)"

definition os_no_device :: os where
  "os_no_device =
     \<lparr>os_open = - 1, os_clock_gettime = gettime_ok, os_now = 1700000000000000005,
      os_localtime = localtime_example\<rparr>"

definition os_read_fails :: os where
  "os_read_fails =
     \<lparr>os_open = 3, os_clock_gettime = gettime_fails, os_now = 1700000000000000005,
      os_localtime = localtime_example\<rparr>"

definition os_write_then_fail :: os where
  "os_write_then_fail =
     \<lparr>os_open = 3, os_clock_gettime = gettime_writes_then_fails,
      os_now = 1700000000000000005, os_localtime = localtime_example\<rparr>"

definition os_healthy :: os where
  "os_healthy =
     \<lparr>os_open = 3, os_clock_gettime = gettime_ok, os_now = 1700000000000000005,
      os_localtime = localtime_example\<rparr>"

definition os_before_epoch :: os where
  "os_before_epoch =
     \<lparr>os_open = 3, os_clock_gettime = gettime_ok, os_now = - 1,
      os_localtime = localtime_example\<rparr>"

definition stale_timespec :: timespec where
  "stale_timespec = \<lparr>tv_sec = 77, tv_nsec = 88\<rparr>"

section \<open>Facts about the identifier derivation\<close>

lemma seven_eq_mask: "(7 :: 32 word) = mask 3"
  by (simp add: mask_eq_exp_minus_1)

lemma three_eq_mask: "(3 :: 32 word) = mask 2"
  by (simp add: mask_eq_exp_minus_1)

lemma FD_TO_CLOCKID_low_bits: "FD_TO_CLOCKID fd AND 7 = 3"
  unfolding FD_TO_CLOCKID_def seven_eq_mask three_eq_mask
  by (rule bit_word_eqI) (auto simp: bit_simps)

lemma FD_TO_CLOCKID_drop_bit: "drop_bit 3 (FD_TO_CLOCKID fd) = take_bit 29 (NOT fd)"
  unfolding FD_TO_CLOCKID_def three_eq_mask
  by (rule bit_word_eqI) (auto simp: bit_simps)

lemma FD_TO_CLOCKID_not_invalid: "FD_TO_CLOCKID fd \<noteq> CLOCK_INVALID"
proof
  assume "FD_TO_CLOCKID fd = CLOCK_INVALID"
  then have "FD_TO_CLOCKID fd AND 7 = (- 1 :: 32 word) AND 7"
    by (simp add: CLOCK_INVALID_def)
  then show False
    by (simp add: FD_TO_CLOCKID_low_bits)
qed

lemma FD_TO_CLOCKID_not_realtime: "FD_TO_CLOCKID fd \<noteq> CLOCK_REALTIME"
proof
  assume "FD_TO_CLOCKID fd = CLOCK_REALTIME"
  then have "FD_TO_CLOCKID fd AND 7 = (0 :: 32 word) AND 7"
    by (simp add: CLOCK_REALTIME_def)
  then show False
    by (simp add: FD_TO_CLOCKID_low_bits)
qed

lemma CLOCKID_TO_FD_FD_TO_CLOCKID: "CLOCKID_TO_FD (FD_TO_CLOCKID fd) = take_bit 29 fd"
  unfolding CLOCKID_TO_FD_def FD_TO_CLOCKID_drop_bit
  by (rule bit_word_eqI) (auto simp: bit_simps)

lemma FD_TO_CLOCKID_take_bit: "FD_TO_CLOCKID (take_bit 29 fd) = FD_TO_CLOCKID fd"
  unfolding FD_TO_CLOCKID_def
  by (rule bit_word_eqI) (auto simp: bit_simps)

lemma FD_TO_CLOCKID_eq_iff:
  "FD_TO_CLOCKID a = FD_TO_CLOCKID b \<longleftrightarrow> take_bit 29 a = take_bit 29 b"
proof
  assume "FD_TO_CLOCKID a = FD_TO_CLOCKID b"
  then have "CLOCKID_TO_FD (FD_TO_CLOCKID a) = CLOCKID_TO_FD (FD_TO_CLOCKID b)"
    by simp
  then show "take_bit 29 a = take_bit 29 b"
    by (simp only: CLOCKID_TO_FD_FD_TO_CLOCKID)
next
  assume "take_bit 29 a = take_bit 29 b"
  then have "FD_TO_CLOCKID (take_bit 29 a) = FD_TO_CLOCKID (take_bit 29 b)"
    by simp
  then show "FD_TO_CLOCKID a = FD_TO_CLOCKID b"
    by (simp only: FD_TO_CLOCKID_take_bit)
qed

lemma take_bit_29_small:
  fixes fd :: cint
  assumes "0 \<le> sint fd" and "sint fd < 2 ^ 29"
  shows "take_bit 29 fd = fd"
proof -
  have "take_bit 29 (sint fd) = sint fd"
    using assms by (simp add: take_bit_int_eq_self)
  then have "take_bit 29 (word_of_int (sint fd) :: cint) = word_of_int (sint fd)"
    by (simp add: take_bit_of_int del: of_int_sint)
  then show ?thesis
    by simp
qed

lemma FD_TO_CLOCKID_arith: "FD_TO_CLOCKID fd = - (8 * fd) - 5"
proof -
  have "push_bit 3 (NOT fd) OR 3 = push_bit 3 (NOT fd) + 3"
    unfolding three_eq_mask
    by (rule disjunctive_add [symmetric]) (auto simp: bit_simps)
  also have "\<dots> = - (8 * fd) - 5"
    by (simp add: push_bit_eq_mult not_eq_complement algebra_simps)
  finally show ?thesis
    by (simp add: FD_TO_CLOCKID_def)
qed

lemma FD_TO_CLOCKID_sint_mod: "sint (FD_TO_CLOCKID fd) mod 8 = 3"
proof -
  have "take_bit 3 (sint (FD_TO_CLOCKID fd)) = take_bit 3 (uint (FD_TO_CLOCKID fd))"
    by (simp add: sint_uint take_bit_signed_take_bit)
  also have "\<dots> = uint (take_bit 3 (FD_TO_CLOCKID fd))"
    by (simp add: unsigned_take_bit_eq)
  also have "take_bit 3 (FD_TO_CLOCKID fd) = 3"
    using FD_TO_CLOCKID_low_bits [of fd] by (simp add: seven_eq_mask take_bit_eq_mask)
  finally show ?thesis
    by (simp add: take_bit_eq_mod)
qed

section \<open>Facts about GetPtpTime\<close>

lemma read_time_static_clkid: "static_clkid (read_time w c ts ev) = c"
  by (simp add: read_time_def Let_def split: option.splits prod.splits)

lemma read_time_ret:
  "ret (read_time w c ts ev) =
     (if ts \<noteq> None \<and> fst (os_clock_gettime w c zero_timespec) <s 0 then CLOCK_INVALID else c)"
  by (simp add: read_time_def Let_def split: option.splits prod.splits)

lemma read_time_trace:
  "trace (read_time w c ts ev) =
     ev @ (if ts = None then []
           else if fst (os_clock_gettime w c zero_timespec) <s 0
           then [SysClockGettime c, ErrGettimeFailed] else [SysClockGettime c])"
  by (simp add: read_time_def Let_def split: option.splits prod.splits)

lemma read_time_ts_out:
  "ts_out (read_time w c ts ev) =
     (if ts = None then None else Some (snd (os_clock_gettime w c zero_timespec)))"
  by (simp add: read_time_def Let_def split: option.splits prod.splits)

lemma GetPtpTime_cached:
  "c \<noteq> CLOCK_INVALID \<Longrightarrow> GetPtpTime w c ts = read_time w c ts []"
  by (simp add: GetPtpTime_def)

lemma GetPtpTime_open_ok:
  "\<not> os_open w <s 0 \<Longrightarrow>
     GetPtpTime w CLOCK_INVALID ts =
       read_time w (FD_TO_CLOCKID (os_open w)) ts [SysOpen, OutOpenFd (os_open w)]"
  by (simp add: GetPtpTime_def Let_def)

lemma GetPtpTime_open_failed:
  "os_open w <s 0 \<Longrightarrow>
     GetPtpTime w CLOCK_INVALID ts =
       \<lparr>static_clkid = CLOCK_INVALID, ret = CLOCK_INVALID, ts_out = ts,
        trace = [SysOpen, OutOpenFd (os_open w), ErrOpenFailed]\<rparr>"
  by (simp add: GetPtpTime_def Let_def)

lemma run_calls_cached:
  "c \<noteq> CLOCK_INVALID \<Longrightarrow> run_calls c cs = map (\<lambda>(w, ts). read_time w c ts []) cs"
  by (induction cs) (auto simp: GetPtpTime_cached read_time_static_clkid Let_def)

lemma length_run_calls: "length (run_calls c cs) = length cs"
  by (induction cs arbitrary: c) (auto simp: Let_def)

section \<open>Facts about truncating division at 64 bits\<close>

lemma smod_bounds:
  fixes k :: int
  shows "- 999999999 \<le> k smod 1000000000" and "k smod 1000000000 \<le> 999999999"
    and "0 \<le> k \<Longrightarrow> 0 \<le> k smod 1000000000"
    and "k < 0 \<Longrightarrow> k smod 1000000000 \<le> 0"
proof -
  have e: "k smod 1000000000
      = (if 0 \<le> k then k mod 1000000000 else - ((- k) mod 1000000000))"
    by (simp add: smod_int_alt_def sgn_if)
  have p: "0 \<le> j mod 1000000000 \<and> j mod 1000000000 \<le> 999999999" for j :: int
  proof -
    have "j mod 1000000000 < 1000000000"
      by simp
    then have "j mod 1000000000 \<le> 999999999"
      by linarith
    then show ?thesis
      by simp
  qed
  show "- 999999999 \<le> k smod 1000000000"
  proof (cases "0 \<le> k")
    case True
    then have "k smod 1000000000 = k mod 1000000000"
      by (simp add: e)
    with p [of k] show ?thesis
      by linarith
  next
    case False
    then have "k smod 1000000000 = - ((- k) mod 1000000000)"
      by (simp add: e)
    with p [of "- k"] show ?thesis
      by linarith
  qed
  show "k smod 1000000000 \<le> 999999999"
  proof (cases "0 \<le> k")
    case True
    then have "k smod 1000000000 = k mod 1000000000"
      by (simp add: e)
    with p [of k] show ?thesis
      by linarith
  next
    case False
    then have "k smod 1000000000 = - ((- k) mod 1000000000)"
      by (simp add: e)
    with p [of "- k"] show ?thesis
      by linarith
  qed
  show "0 \<le> k \<Longrightarrow> 0 \<le> k smod 1000000000"
    unfolding e by simp
  show "k < 0 \<Longrightarrow> k smod 1000000000 \<le> 0"
    unfolding e by simp
qed

lemma sint_smod_word:
  "sint (word_of_int (k smod 1000000000) :: clong) = k smod 1000000000"
proof -
  have "signed_take_bit 63 (k smod 1000000000) = k smod 1000000000"
    using smod_bounds(1,2) [of k] by (intro signed_take_bit_int_eq_self) simp_all
  then show ?thesis
    by (simp add: sint_sbintrunc')
qed

lemma sdiv_bounds:
  fixes k :: int
  assumes "- (2 ^ 63) \<le> k" and "k < 2 ^ 63"
  shows "- (2 ^ 63) \<le> k sdiv 1000000000" and "k sdiv 1000000000 < 2 ^ 63"
proof -
  have e: "k sdiv 1000000000
      = (if 0 \<le> k then k div 1000000000 else - ((- k) div 1000000000))"
    by (simp add: signed_divide_int_def sgn_if)
  have q: "0 \<le> j div 1000000000 \<and> j div 1000000000 < 2 ^ 63"
    if "0 \<le> j" and "j \<le> 2 ^ 63" for j :: int
  proof -
    have "j div 1000000000 \<le> 2 ^ 63 div (1000000000 :: int)"
      using that(2) by (rule zdiv_mono1) simp
    then have "j div 1000000000 < 2 ^ 63"
      by simp
    moreover have "0 \<le> j div 1000000000"
      using that(1) by simp
    ultimately show ?thesis
      by simp
  qed
  show "- (2 ^ 63) \<le> k sdiv 1000000000"
  proof (cases "0 \<le> k")
    case True
    with assms q [of k] show ?thesis
      unfolding e by simp
  next
    case False
    with assms q [of "- k"] show ?thesis
      unfolding e by simp
  qed
  show "k sdiv 1000000000 < 2 ^ 63"
  proof (cases "0 \<le> k")
    case True
    with assms q [of k] show ?thesis
      unfolding e by simp
  next
    case False
    with assms q [of "- k"] show ?thesis
      unfolding e by simp
  qed
qed

lemma sint_sdiv_word:
  fixes c :: clong
  shows "sint (word_of_int (sint c sdiv 1000000000) :: clong) = sint c sdiv 1000000000"
proof -
  have "- (2 ^ 63) \<le> sint c" "sint c < 2 ^ 63"
    using sint_ge [of c] sint_lt [of c] by simp_all
  then have "signed_take_bit 63 (sint c sdiv 1000000000) = sint c sdiv 1000000000"
    by (intro signed_take_bit_int_eq_self sdiv_bounds)
  then show ?thesis
    by (simp add: sint_sbintrunc')
qed

section \<open>Facts about main\<close>

lemma GetPtpTime_ret_first_call:
  "ret (GetPtpTime w CLOCK_INVALID (Some ts0)) = CLOCK_INVALID \<longleftrightarrow> hardware_clock_fails w"
  by (cases "os_open w <s 0")
    (simp_all add: hardware_clock_fails_def GetPtpTime_open_failed GetPtpTime_open_ok
      read_time_ret FD_TO_CLOCKID_not_invalid)

lemma GetPtpTime_trace_first_call:
  "trace (GetPtpTime w CLOCK_INVALID (Some ts0)) =
     (if os_open w <s 0 then [SysOpen, OutOpenFd (os_open w), ErrOpenFailed]
      else if fst (os_clock_gettime w (FD_TO_CLOCKID (os_open w)) zero_timespec) <s 0
      then [SysOpen, OutOpenFd (os_open w), SysClockGettime (FD_TO_CLOCKID (os_open w)),
            ErrGettimeFailed]
      else [SysOpen, OutOpenFd (os_open w), SysClockGettime (FD_TO_CLOCKID (os_open w))])"
  by (cases "os_open w <s 0")
    (simp_all add: GetPtpTime_open_failed GetPtpTime_open_ok read_time_trace)

lemma PrintTime_eq_None: "PrintTime w ts = None \<longleftrightarrow> os_localtime w (tv_sec ts) = None"
  by (simp add: PrintTime_def split: option.splits)

lemma PrintTime_events:
  "PrintTime w ts = Some p \<Longrightarrow> e \<in> set p \<Longrightarrow> \<exists>a b c d f g. e = OutPrintTime a b c d f g"
  by (auto simp: PrintTime_def split: option.splits)

lemma main_failure:
  "hardware_clock_fails w \<Longrightarrow>
     main w ts0 ts20 =
       (Exited 1, trace (GetPtpTime w CLOCK_INVALID (Some ts0)) @ [ErrNoClockId])"
  by (simp add: main_def Let_def GetPtpTime_ret_first_call)

lemma main_success:
  assumes "\<not> hardware_clock_fails w"
    and "hw = snd (os_clock_gettime w (FD_TO_CLOCKID (os_open w)) zero_timespec)"
    and "ts2 = snd (os_clock_gettime w CLOCK_REALTIME ts20)"
    and "ts3 = system_clock_timespec (os_now w)"
    and "tr1 = [SysOpen, OutOpenFd (os_open w), SysClockGettime (FD_TO_CLOCKID (os_open w)),
                OutPtpTime hw]"
  shows "main w ts0 ts20 =
     (case PrintTime w hw of
        None \<Rightarrow> (Crashed, tr1)
      | Some p1 \<Rightarrow>
          (case PrintTime w ts2 of
             None \<Rightarrow> (Crashed, tr1 @ p1 @ [SysClockGettime CLOCK_REALTIME, OutRealTime ts2])
           | Some p2 \<Rightarrow>
               (case PrintTime w ts3 of
                  None \<Rightarrow>
                    (Crashed, tr1 @ p1 @ [SysClockGettime CLOCK_REALTIME, OutRealTime ts2]
                       @ p2 @ [SysNow, OutSystemClockTime ts3])
                | Some p3 \<Rightarrow>
                    (Exited 0, tr1 @ p1 @ [SysClockGettime CLOCK_REALTIME, OutRealTime ts2]
                       @ p2 @ [SysNow, OutSystemClockTime ts3] @ p3))))"
proof -
  from assms(1) have o: "\<not> os_open w <s 0"
    and g: "\<not> fst (os_clock_gettime w (FD_TO_CLOCKID (os_open w)) zero_timespec) <s 0"
    by (simp_all add: hardware_clock_fails_def)
  have r: "ret (GetPtpTime w CLOCK_INVALID (Some ts0)) \<noteq> CLOCK_INVALID"
    using assms(1) by (simp add: GetPtpTime_ret_first_call)
  have t: "trace (GetPtpTime w CLOCK_INVALID (Some ts0)) =
      [SysOpen, OutOpenFd (os_open w), SysClockGettime (FD_TO_CLOCKID (os_open w))]"
    using o g by (simp add: GetPtpTime_trace_first_call)
  have b: "ts_out (GetPtpTime w CLOCK_INVALID (Some ts0)) = Some hw"
    using o by (simp add: assms(2) GetPtpTime_open_ok read_time_ts_out)
  show ?thesis
    by (simp add: main_def Let_def r t b assms(3-5) split: option.splits)
qed

lemma main_success_fst:
  assumes "\<not> hardware_clock_fails w"
  shows "fst (main w ts0 ts20) =
     (if os_localtime w
           (tv_sec (snd (os_clock_gettime w (FD_TO_CLOCKID (os_open w)) zero_timespec))) = None
         \<or> os_localtime w (tv_sec (snd (os_clock_gettime w CLOCK_REALTIME ts20))) = None
         \<or> os_localtime w (tv_sec (system_clock_timespec (os_now w))) = None
      then Crashed else Exited 0)"
  by (simp add: main_success [OF assms refl refl refl refl] PrintTime_eq_None [symmetric]
      split: option.splits)

lemma main_success_events:
  assumes "\<not> hardware_clock_fails w" and "e \<in> set (snd (main w ts0 ts20))"
  shows "e \<in> {SysOpen, OutOpenFd (os_open w), SysClockGettime (FD_TO_CLOCKID (os_open w)),
               OutPtpTime (snd (os_clock_gettime w (FD_TO_CLOCKID (os_open w)) zero_timespec)),
               SysClockGettime CLOCK_REALTIME,
               OutRealTime (snd (os_clock_gettime w CLOCK_REALTIME ts20)),
               SysNow,
               OutSystemClockTime (system_clock_timespec (os_now w))}
         \<or> (\<exists>a b c d f g. e = OutPrintTime a b c d f g)"
  using assms(2)
  by (auto simp: main_success [OF assms(1) refl refl refl refl]
      split: option.splits dest: PrintTime_events)

section \<open>The claims about the identifier derivation\<close>

text \<open>
  Claim C6. The derivation is a function of the descriptor alone: the complement of the
  descriptor at 32 bits, shifted left by three, with the two low bits set. In arithmetic
  terms it is \<open>- 8 * fd - 5\<close> modulo \<open>2 ^ 32\<close>. Read as a signed 32-bit number the
  identifier of descriptor 3 is \<open>- 29\<close>.
\<close>

theorem FD_TO_CLOCKID_known_vector:
  "FD_TO_CLOCKID fd = push_bit 3 (NOT fd) OR 3
   \<and> FD_TO_CLOCKID fd = - (8 * fd) - 5
   \<and> sint (FD_TO_CLOCKID 3) = - 29"
proof -
  have "sint (FD_TO_CLOCKID 3) = - 29"
    by (simp add: FD_TO_CLOCKID_arith)
  moreover have "FD_TO_CLOCKID fd = push_bit 3 (NOT fd) OR 3"
    by (simp add: FD_TO_CLOCKID_def)
  moreover have "FD_TO_CLOCKID fd = - (8 * fd) - 5"
    by (rule FD_TO_CLOCKID_arith)
  ultimately show ?thesis
    by simp
qed

text \<open>
  Claim C7, as the claim states it, fails: the shift drops the three high bits of the
  complemented descriptor, so the descriptors 0 and \<open>2 ^ 29\<close> get the same identifier and no
  function of the identifier can return both.
\<close>

theorem FD_TO_CLOCKID_collision:
  "FD_TO_CLOCKID 0 = FD_TO_CLOCKID 536870912 \<and> (0 :: cint) \<noteq> 536870912"
  by (simp add: FD_TO_CLOCKID_arith)

text \<open>
  Claim C7, amended. Two descriptors have the same identifier exactly when their low 29
  bits agree; so for every descriptor \<open>fd\<close> with \<open>0 \<le> fd < 2 ^ 29\<close> the round trip
  descriptor to identifier to descriptor is the identity.
\<close>

theorem FD_TO_CLOCKID_roundtrip:
  "(FD_TO_CLOCKID a = FD_TO_CLOCKID b \<longleftrightarrow> take_bit 29 a = take_bit 29 b)
   \<and> (0 \<le> sint fd \<and> sint fd < 2 ^ 29 \<longrightarrow> CLOCKID_TO_FD (FD_TO_CLOCKID fd) = fd)"
  by (simp add: FD_TO_CLOCKID_eq_iff CLOCKID_TO_FD_FD_TO_CLOCKID take_bit_29_small)

theorem FD_TO_CLOCKID_roundtrip_witness:
  "0 \<le> sint (3 :: cint) \<and> sint (3 :: cint) < 2 ^ 29
   \<and> CLOCKID_TO_FD (FD_TO_CLOCKID 3) = 3
   \<and> FD_TO_CLOCKID 3 \<noteq> FD_TO_CLOCKID 4"
  using FD_TO_CLOCKID_roundtrip [of 3 4 3] by simp

text \<open>
  Claim C10. Every derived identifier has the low three bits 011, that is, it is 3 modulo
  8 as a signed number; so it differs from \<open>CLOCK_INVALID\<close>, and after a call whose open
  succeeded the static variable no longer passes the test \<^verbatim>\<open>clkid == CLOCK_INVALID\<close>.
\<close>

theorem FD_TO_CLOCKID_tag_never_invalid:
  "FD_TO_CLOCKID fd AND 7 = 3
   \<and> sint (FD_TO_CLOCKID fd) mod 8 = 3
   \<and> FD_TO_CLOCKID fd \<noteq> CLOCK_INVALID
   \<and> (\<not> os_open w <s 0 \<longrightarrow> static_clkid (GetPtpTime w CLOCK_INVALID ts) \<noteq> CLOCK_INVALID)"
  by (simp add: FD_TO_CLOCKID_low_bits FD_TO_CLOCKID_sint_mod FD_TO_CLOCKID_not_invalid
      GetPtpTime_open_ok read_time_static_clkid)

theorem FD_TO_CLOCKID_tag_never_invalid_witness:
  "\<not> os_open os_healthy <s 0
   \<and> static_clkid (GetPtpTime os_healthy CLOCK_INVALID None) \<noteq> CLOCK_INVALID
   \<and> FD_TO_CLOCKID 3 AND 7 = 3"
  using FD_TO_CLOCKID_tag_never_invalid [of 3 os_healthy None]
  by (simp add: os_healthy_def word_sless_alt)

section \<open>The claims about the cached identifier\<close>

text \<open>
  Claim C3. Let the first call of the process open the device successfully. Then the
  static variable holds the identifier derived from that descriptor, and for every
  sequence of later calls, each with its own pointer argument and its own answers of the
  system: the static variable still holds it after each call and no call opens the
  device; a call returns it exactly when the pointer is null (acquisition only) or its
  time read succeeds, and returns \<open>CLOCK_INVALID\<close> otherwise; a call with a buffer makes
  exactly one query, through that identifier; and the whole process has made exactly
  one call of \<^verbatim>\<open>open\<close>.
\<close>

theorem GetPtpTime_cached_identifier_reused:
  assumes "\<not> os_open w <s 0"
    and "r0 = GetPtpTime w CLOCK_INVALID ts"
    and "rs = run_calls (static_clkid r0) cs"
  shows "static_clkid r0 = FD_TO_CLOCKID (os_open w)
    \<and> (ret r0 = FD_TO_CLOCKID (os_open w) \<longleftrightarrow>
          ts = None \<or> \<not> fst (os_clock_gettime w (FD_TO_CLOCKID (os_open w)) zero_timespec) <s 0)
    \<and> length rs = length cs
    \<and> (\<forall>r \<in> set rs. static_clkid r = FD_TO_CLOCKID (os_open w)
          \<and> SysOpen \<notin> set (trace r)
          \<and> (ret r = FD_TO_CLOCKID (os_open w)
               \<or> ret r = CLOCK_INVALID \<and> ErrGettimeFailed \<in> set (trace r)))
    \<and> (\<forall>(c, r) \<in> set (zip cs rs).
          (snd c = None \<longrightarrow> ret r = FD_TO_CLOCKID (os_open w))
          \<and> (ret r = FD_TO_CLOCKID (os_open w) \<longleftrightarrow>
                snd c = None
                \<or> \<not> fst (os_clock_gettime (fst c) (FD_TO_CLOCKID (os_open w)) zero_timespec) <s 0)
          \<and> trace r =
               (if snd c = None then []
                else if fst (os_clock_gettime (fst c) (FD_TO_CLOCKID (os_open w)) zero_timespec) <s 0
                then [SysClockGettime (FD_TO_CLOCKID (os_open w)), ErrGettimeFailed]
                else [SysClockGettime (FD_TO_CLOCKID (os_open w))])
          \<and> ts_out r =
               (if snd c = None then None
                else Some (snd (os_clock_gettime (fst c) (FD_TO_CLOCKID (os_open w))
                                  zero_timespec))))
    \<and> count_list (trace r0 @ concat (map trace rs)) SysOpen = 1"
proof -
  let ?id = "FD_TO_CLOCKID (os_open w)"
  have r0: "r0 = read_time w ?id ts [SysOpen, OutOpenFd (os_open w)]"
    using assms(1) by (simp add: assms(2) GetPtpTime_open_ok)
  have static: "static_clkid r0 = ?id"
    by (simp add: r0 read_time_static_clkid)
  have ret0: "ret r0 = ?id \<longleftrightarrow>
      ts = None \<or> \<not> fst (os_clock_gettime w ?id zero_timespec) <s 0"
    using FD_TO_CLOCKID_not_invalid [of "os_open w"]
    by (auto simp: r0 read_time_ret)
  have rs: "rs = map (\<lambda>(w', ts'). read_time w' ?id ts' []) cs"
    by (simp add: assms(3) static run_calls_cached FD_TO_CLOCKID_not_invalid)
  have len: "length rs = length cs"
    by (simp add: rs)
  have each: "static_clkid r = ?id \<and> SysOpen \<notin> set (trace r)
      \<and> (ret r = ?id \<or> ret r = CLOCK_INVALID \<and> ErrGettimeFailed \<in> set (trace r))"
    if "r \<in> set rs" for r
  proof -
    from that obtain w' ts' where "r = read_time w' ?id ts' []"
      by (auto simp: rs)
    then show ?thesis
      by (simp add: read_time_static_clkid read_time_ret read_time_trace)
  qed
  have pair: "(snd c = None \<longrightarrow> ret r = ?id)
      \<and> (ret r = ?id \<longleftrightarrow>
            snd c = None \<or> \<not> fst (os_clock_gettime (fst c) ?id zero_timespec) <s 0)
      \<and> trace r =
           (if snd c = None then []
            else if fst (os_clock_gettime (fst c) ?id zero_timespec) <s 0
            then [SysClockGettime ?id, ErrGettimeFailed]
            else [SysClockGettime ?id])
      \<and> ts_out r =
           (if snd c = None then None
            else Some (snd (os_clock_gettime (fst c) ?id zero_timespec)))"
    if "(c, r) \<in> set (zip cs rs)" for c r
  proof -
    from that have "r = (\<lambda>(w', ts'). read_time w' ?id ts' []) c"
      unfolding rs zip_map2 by (auto simp: zip_same)
    then have r: "r = read_time (fst c) ?id (snd c) []"
      by (simp add: case_prod_beta)
    have a: "snd c = None \<longrightarrow> ret r = ?id"
      by (simp add: r read_time_ret)
    have b: "ret r = ?id \<longleftrightarrow>
        snd c = None \<or> \<not> fst (os_clock_gettime (fst c) ?id zero_timespec) <s 0"
      using FD_TO_CLOCKID_not_invalid [of "os_open w"]
      by (auto simp: r read_time_ret)
    have c: "trace r =
           (if snd c = None then []
            else if fst (os_clock_gettime (fst c) ?id zero_timespec) <s 0
            then [SysClockGettime ?id, ErrGettimeFailed]
            else [SysClockGettime ?id])"
      by (simp add: r read_time_trace)
    have d: "ts_out r =
           (if snd c = None then None
            else Some (snd (os_clock_gettime (fst c) ?id zero_timespec)))"
      by (simp add: r read_time_ts_out)
    show ?thesis
      by (rule conjI [OF a conjI [OF b conjI [OF c d]]])
  qed
  have later: "count_list (concat (map trace rs)) SysOpen = 0"
    using each by (simp add: count_list_0_iff)
  have first: "count_list (trace r0) SysOpen = 1"
    by (simp add: r0 read_time_trace)
  have A: "\<forall>r \<in> set rs. static_clkid r = ?id \<and> SysOpen \<notin> set (trace r)
      \<and> (ret r = ?id \<or> ret r = CLOCK_INVALID \<and> ErrGettimeFailed \<in> set (trace r))"
    using each by blast
  have B: "\<forall>(c, r) \<in> set (zip cs rs).
      (snd c = None \<longrightarrow> ret r = ?id)
      \<and> (ret r = ?id \<longleftrightarrow>
            snd c = None \<or> \<not> fst (os_clock_gettime (fst c) ?id zero_timespec) <s 0)
      \<and> trace r =
           (if snd c = None then []
            else if fst (os_clock_gettime (fst c) ?id zero_timespec) <s 0
            then [SysClockGettime ?id, ErrGettimeFailed]
            else [SysClockGettime ?id])
      \<and> ts_out r =
           (if snd c = None then None
            else Some (snd (os_clock_gettime (fst c) ?id zero_timespec)))"
    (is "Ball _ ?P")
  proof (rule ballI)
    fix x
    assume x: "x \<in> set (zip cs rs)"
    obtain c r where xr: "x = (c, r)"
      by (cases x)
    from x have "(c, r) \<in> set (zip cs rs)"
      by (simp add: xr)
    from pair [OF this] show "?P x"
      unfolding xr case_prod_conv .
  qed
  have C: "count_list (trace r0 @ concat (map trace rs)) SysOpen = 1"
    using later first by simp
  show ?thesis
    by (rule conjI [OF static conjI [OF ret0 conjI [OF len conjI [OF A conjI [OF B C]]]]])
qed

theorem GetPtpTime_cached_identifier_reused_witness:
  "\<not> os_open os_healthy <s 0
   \<and> static_clkid (GetPtpTime os_healthy CLOCK_INVALID None)
       = FD_TO_CLOCKID (os_open os_healthy)
   \<and> map ret (run_calls (FD_TO_CLOCKID 3)
        [(os_no_device, None), (os_healthy, Some stale_timespec),
         (os_read_fails, Some stale_timespec)])
       = [FD_TO_CLOCKID 3, FD_TO_CLOCKID 3, CLOCK_INVALID]
   \<and> count_list
        (trace (GetPtpTime os_healthy CLOCK_INVALID None)
         @ concat (map trace
             (run_calls (static_clkid (GetPtpTime os_healthy CLOCK_INVALID None))
                [(os_no_device, None), (os_healthy, Some stale_timespec),
                 (os_read_fails, Some stale_timespec)])))
        SysOpen = 1"
proof -
  let ?cs = "[(os_no_device, None), (os_healthy, Some stale_timespec),
              (os_read_fails, Some stale_timespec)]"
  have h: "\<not> os_open os_healthy <s 0"
    by (simp add: os_healthy_def word_sless_alt)
  note T = GetPtpTime_cached_identifier_reused [OF h refl refl, of None ?cs]
  have c: "static_clkid (GetPtpTime os_healthy CLOCK_INVALID None)
      = FD_TO_CLOCKID (os_open os_healthy)"
    by (rule T [THEN conjunct1])
  have n: "count_list
        (trace (GetPtpTime os_healthy CLOCK_INVALID None)
         @ concat (map trace
             (run_calls (static_clkid (GetPtpTime os_healthy CLOCK_INVALID None)) ?cs)))
        SysOpen = 1"
    by (rule T [THEN conjunct2, THEN conjunct2, THEN conjunct2, THEN conjunct2,
          THEN conjunct2])
  have f: "fst (os_clock_gettime os_read_fails clk b) <s 0" for clk b
    by (simp add: os_read_fails_def gettime_fails_def word_sless_alt)
  have g: "\<not> fst (os_clock_gettime os_healthy clk b) <s 0" for clk b
    by (simp add: os_healthy_def gettime_ok_def word_sless_alt)
  have m: "map ret (run_calls (FD_TO_CLOCKID 3) ?cs)
      = [FD_TO_CLOCKID 3, FD_TO_CLOCKID 3, CLOCK_INVALID]"
    by (simp add: GetPtpTime_cached FD_TO_CLOCKID_not_invalid Let_def read_time_ret
        read_time_static_clkid f g)
  show ?thesis
    by (rule conjI [OF h conjI [OF c conjI [OF m n]]])
qed

text \<open>
  Claim C4. After a call, the identifier is cached exactly when it was cached before or
  the open of this call succeeded; from the uninitialised state, exactly when the open
  succeeded. When the open fails the static variable is still \<open>CLOCK_INVALID\<close>, and the
  next call, whatever its arguments, calls \<^verbatim>\<open>open\<close> again, as its first action.
\<close>

theorem GetPtpTime_cached_iff_open_succeeded:
  "(static_clkid (GetPtpTime w c ts) \<noteq> CLOCK_INVALID
      \<longleftrightarrow> c \<noteq> CLOCK_INVALID \<or> \<not> os_open w <s 0)
   \<and> (static_clkid (GetPtpTime w CLOCK_INVALID ts) \<noteq> CLOCK_INVALID \<longleftrightarrow> \<not> os_open w <s 0)
   \<and> (os_open w <s 0 \<longrightarrow>
        static_clkid (GetPtpTime w CLOCK_INVALID ts) = CLOCK_INVALID
        \<and> hd (trace (GetPtpTime w' (static_clkid (GetPtpTime w CLOCK_INVALID ts)) ts')) = SysOpen
        \<and> count_list (trace (GetPtpTime w' (static_clkid (GetPtpTime w CLOCK_INVALID ts)) ts'))
             SysOpen = 1)"
proof -
  have any: "static_clkid (GetPtpTime w c ts) \<noteq> CLOCK_INVALID
      \<longleftrightarrow> c \<noteq> CLOCK_INVALID \<or> \<not> os_open w <s 0" for c
  proof (cases "c = CLOCK_INVALID")
    case False
    then show ?thesis
      by (simp add: GetPtpTime_cached read_time_static_clkid)
  next
    case True
    then show ?thesis
      by (cases "os_open w <s 0")
        (simp_all add: GetPtpTime_open_ok GetPtpTime_open_failed read_time_static_clkid
          FD_TO_CLOCKID_not_invalid)
  qed
  have retry: "hd (trace (GetPtpTime w' CLOCK_INVALID ts')) = SysOpen
      \<and> count_list (trace (GetPtpTime w' CLOCK_INVALID ts')) SysOpen = 1"
    by (cases "os_open w' <s 0")
      (simp_all add: GetPtpTime_open_ok GetPtpTime_open_failed read_time_trace)
  show ?thesis
    using any [of c] any [of CLOCK_INVALID] retry
    by (auto simp: GetPtpTime_open_failed)
qed

theorem GetPtpTime_cached_iff_open_succeeded_witness:
  "os_open os_no_device <s 0
   \<and> static_clkid (GetPtpTime os_no_device CLOCK_INVALID None) = CLOCK_INVALID
   \<and> count_list
        (trace (GetPtpTime os_healthy
           (static_clkid (GetPtpTime os_no_device CLOCK_INVALID None)) None)) SysOpen = 1"
proof -
  have h: "os_open os_no_device <s 0"
    by (simp add: os_no_device_def word_sless_alt)
  note T = GetPtpTime_cached_iff_open_succeeded
      [of os_no_device CLOCK_INVALID None os_healthy None,
       THEN conjunct2, THEN conjunct2, THEN mp, OF h]
  show ?thesis
    by (rule conjI [OF h conjI [OF T [THEN conjunct1] T [THEN conjunct2, THEN conjunct2]]])
qed

text \<open>
  Claim C5. In any sequence of calls, started in any state of the static variable, as
  soon as the static variable holds an identifier after some call, it holds the same
  identifier after every later call, and no later call opens the device; the later calls
  are arbitrary, so this includes calls whose time read fails.
\<close>

theorem cached_state_terminal:
  assumes "i \<le> j" and "j < length cs"
    and "static_clkid (run_calls c0 cs ! i) \<noteq> CLOCK_INVALID"
  shows "static_clkid (run_calls c0 cs ! j) = static_clkid (run_calls c0 cs ! i)
    \<and> (i < j \<longrightarrow> SysOpen \<notin> set (trace (run_calls c0 cs ! j)))"
  using assms
proof (induction cs arbitrary: c0 i j)
  case Nil
  then show ?case by simp
next
  case (Cons x cs)
  obtain w ts where x: "x = (w, ts)"
    by (cases x)
  let ?r = "GetPtpTime w c0 ts"
  have unfold: "run_calls c0 (x # cs) = ?r # run_calls (static_clkid ?r) cs"
    by (simp add: x Let_def)
  show ?case
  proof (cases i)
    case 0
    with Cons.prems unfold have cached: "static_clkid ?r \<noteq> CLOCK_INVALID"
      by simp
    show ?thesis
    proof (cases j)
      case 0
      with \<open>i = 0\<close> show ?thesis by simp
    next
      case (Suc j')
      with Cons.prems have j': "j' < length cs"
        by simp
      have "run_calls (static_clkid ?r) cs ! j'
          = (\<lambda>(w', ts'). read_time w' (static_clkid ?r) ts' []) (cs ! j')"
        using j' by (simp add: run_calls_cached [OF cached])
      then show ?thesis
        using \<open>i = 0\<close> Suc unfold
        by (cases "cs ! j'") (simp add: read_time_static_clkid read_time_trace)
    qed
  next
    case (Suc i')
    with Cons.prems obtain j' where j: "j = Suc j'"
      by (cases j) auto
    from Cons.prems Suc j unfold
    have "i' \<le> j'" "j' < length cs"
      "static_clkid (run_calls (static_clkid ?r) cs ! i') \<noteq> CLOCK_INVALID"
      by simp_all
    from Cons.IH [OF this] show ?thesis
      using Suc j unfold by simp
  qed
qed

theorem cached_state_terminal_witness:
  "(1 :: nat) \<le> 2
   \<and> static_clkid (run_calls CLOCK_INVALID
        [(os_no_device, None), (os_healthy, None), (os_read_fails, Some stale_timespec)] ! 1)
      \<noteq> CLOCK_INVALID
   \<and> static_clkid (run_calls CLOCK_INVALID
        [(os_no_device, None), (os_healthy, None), (os_read_fails, Some stale_timespec)] ! 2)
      = FD_TO_CLOCKID 3
   \<and> ret (run_calls CLOCK_INVALID
        [(os_no_device, None), (os_healthy, None), (os_read_fails, Some stale_timespec)] ! 2)
      = CLOCK_INVALID"
proof -
  let ?cs = "[(os_no_device, None), (os_healthy, None), (os_read_fails, Some stale_timespec)]"
  have a: "os_open os_no_device <s 0" and b: "\<not> os_open os_healthy <s 0"
    by (simp_all add: os_no_device_def os_healthy_def word_sless_alt)
  have run: "run_calls CLOCK_INVALID ?cs =
      [GetPtpTime os_no_device CLOCK_INVALID None,
       read_time os_healthy (FD_TO_CLOCKID (os_open os_healthy)) None
         [SysOpen, OutOpenFd (os_open os_healthy)],
       read_time os_read_fails (FD_TO_CLOCKID (os_open os_healthy)) (Some stale_timespec) []]"
    by (simp add: Let_def GetPtpTime_open_failed [OF a] GetPtpTime_open_ok [OF b]
        read_time_static_clkid GetPtpTime_cached FD_TO_CLOCKID_not_invalid)
  have i: "static_clkid (run_calls CLOCK_INVALID ?cs ! 1) \<noteq> CLOCK_INVALID"
    unfolding run by (simp add: read_time_static_clkid FD_TO_CLOCKID_not_invalid)
  have r: "ret (run_calls CLOCK_INVALID ?cs ! 2) = CLOCK_INVALID"
    unfolding run
    by (simp add: read_time_ret os_read_fails_def gettime_fails_def word_sless_alt)
  have s: "static_clkid (run_calls CLOCK_INVALID ?cs ! 1) = FD_TO_CLOCKID 3"
    unfolding run by (simp add: read_time_static_clkid os_healthy_def)
  have le: "(1 :: nat) \<le> 2"
    by simp
  have len: "2 < length ?cs"
    by simp
  have t: "static_clkid (run_calls CLOCK_INVALID ?cs ! 2)
      = static_clkid (run_calls CLOCK_INVALID ?cs ! 1)"
    by (rule cached_state_terminal [OF le len i, THEN conjunct1])
  show ?thesis
    by (rule conjI [OF le conjI [OF i conjI [OF trans [OF t s] r]]])
qed

section \<open>The claims about the time read\<close>

text \<open>
  Claim C8, as the claim states it, fails: \<^verbatim>\<open>clock_gettime\<close> is free to write to the
  buffer before it fails. With a query that stores 9 seconds and 9 nanoseconds and
  then fails, the caller gets that timestamp back, not the all-zero one.
\<close>

theorem GetPtpTime_failed_query_not_all_zero:
  "ErrGettimeFailed
     \<in> set (trace (GetPtpTime os_write_then_fail CLOCK_INVALID (Some stale_timespec)))
   \<and> ret (GetPtpTime os_write_then_fail CLOCK_INVALID (Some stale_timespec)) = CLOCK_INVALID
   \<and> ts_out (GetPtpTime os_write_then_fail CLOCK_INVALID (Some stale_timespec))
       = Some \<lparr>tv_sec = 9, tv_nsec = 9\<rparr>
   \<and> \<lparr>tv_sec = 9, tv_nsec = 9\<rparr> \<noteq> zero_timespec"
proof -
  have o: "\<not> os_open os_write_then_fail <s 0"
    by (simp add: os_write_then_fail_def word_sless_alt)
  have f: "fst (os_clock_gettime os_write_then_fail clk b) <s 0" for clk b
    by (simp add: os_write_then_fail_def gettime_writes_then_fails_def word_sless_alt)
  have s: "snd (os_clock_gettime os_write_then_fail clk b) = \<lparr>tv_sec = 9, tv_nsec = 9\<rparr>"
    for clk b
    by (simp add: os_write_then_fail_def gettime_writes_then_fails_def)
  show ?thesis
    by (simp add: GetPtpTime_open_ok [OF o] read_time_trace read_time_ret read_time_ts_out
        f s zero_timespec_def)
qed

text \<open>
  Claim C8, amended. The buffer is zeroed before the query. So whenever a call of
  \<^verbatim>\<open>GetPtpTime\<close> with a buffer reaches the query and the query fails, the buffer the
  caller gets back is what the failing \<^verbatim>\<open>clock_gettime\<close> left of an all-zero buffer: it is
  the same for every content the buffer had before the call, and it is the all-zero
  timestamp provided the failing query wrote nothing to the buffer.
\<close>

theorem GetPtpTime_zeroes_before_query:
  assumes "ErrGettimeFailed \<in> set (trace (GetPtpTime w c (Some old)))"
  shows "ts_out (GetPtpTime w c (Some old))
       = Some (snd (os_clock_gettime w (static_clkid (GetPtpTime w c (Some old))) zero_timespec))
    \<and> ts_out (GetPtpTime w c (Some old')) = ts_out (GetPtpTime w c (Some old))
    \<and> (snd (os_clock_gettime w (static_clkid (GetPtpTime w c (Some old))) zero_timespec)
          = zero_timespec
         \<longrightarrow> ts_out (GetPtpTime w c (Some old)) = Some zero_timespec)"
proof -
  define k where "k = (if c = CLOCK_INVALID then FD_TO_CLOCKID (os_open w) else c)"
  define ev where "ev = (if c = CLOCK_INVALID then [SysOpen, OutOpenFd (os_open w)] else [])"
  have opened: "\<not> (c = CLOCK_INVALID \<and> os_open w <s 0)"
  proof
    assume "c = CLOCK_INVALID \<and> os_open w <s 0"
    then have "trace (GetPtpTime w c (Some old))
        = [SysOpen, OutOpenFd (os_open w), ErrOpenFailed]"
      by (simp add: GetPtpTime_open_failed)
    with assms show False
      by simp
  qed
  have call: "GetPtpTime w c (Some b) = read_time w k (Some b) ev" for b
    using opened by (cases "c = CLOCK_INVALID")
      (simp_all add: k_def ev_def GetPtpTime_open_ok GetPtpTime_cached)
  have out: "ts_out (GetPtpTime w c (Some b)) = Some (snd (os_clock_gettime w k zero_timespec))"
    for b
    by (simp add: call read_time_ts_out)
  have st: "static_clkid (GetPtpTime w c (Some old)) = k"
    by (simp add: call read_time_static_clkid)
  show ?thesis
    using out [of old] out [of old'] by (simp add: st)
qed

theorem GetPtpTime_zeroes_before_query_witness:
  "ErrGettimeFailed \<in> set (trace (GetPtpTime os_read_fails CLOCK_INVALID (Some stale_timespec)))
   \<and> ts_out (GetPtpTime os_read_fails CLOCK_INVALID (Some stale_timespec)) = Some zero_timespec
   \<and> stale_timespec \<noteq> zero_timespec"
proof -
  have o: "\<not> os_open os_read_fails <s 0"
    by (simp add: os_read_fails_def word_sless_alt)
  have f: "fst (os_clock_gettime os_read_fails clk b) <s 0" for clk b
    by (simp add: os_read_fails_def gettime_fails_def word_sless_alt)
  have u: "snd (os_clock_gettime os_read_fails clk b) = b" for clk b
    by (simp add: os_read_fails_def gettime_fails_def)
  have h: "ErrGettimeFailed
      \<in> set (trace (GetPtpTime os_read_fails CLOCK_INVALID (Some stale_timespec)))"
    by (simp add: GetPtpTime_open_ok [OF o] read_time_trace f)
  have z: "ts_out (GetPtpTime os_read_fails CLOCK_INVALID (Some stale_timespec))
      = Some zero_timespec"
    by (rule GetPtpTime_zeroes_before_query
        [OF h, THEN conjunct2, THEN conjunct2, THEN mp, OF u])
  have n: "stale_timespec \<noteq> zero_timespec"
    by (simp add: stale_timespec_def zero_timespec_def)
  show ?thesis
    by (rule conjI [OF h conjI [OF z n]])
qed

section \<open>The claims about main\<close>

text \<open>
  Claim C1, as the claim states it, fails: with the device opened as descriptor 3 and a
  failing \<^verbatim>\<open>clock_gettime\<close>, the open succeeded and the exit code is 1.
\<close>

theorem main_exit_1_without_open_failure:
  "\<not> os_open os_read_fails <s 0
   \<and> fst (main os_read_fails stale_timespec stale_timespec) = Exited 1"
proof -
  have o: "\<not> os_open os_read_fails <s 0"
    by (simp add: os_read_fails_def word_sless_alt)
  have "hardware_clock_fails os_read_fails"
    by (simp add: hardware_clock_fails_def os_read_fails_def gettime_fails_def word_sless_alt)
  then have "fst (main os_read_fails stale_timespec stale_timespec) = Exited 1"
    by (simp add: main_failure)
  with o show ?thesis
    by simp
qed

text \<open>
  Claim C1, amended. \<^verbatim>\<open>main\<close> returns 1 exactly when \<^verbatim>\<open>GetPtpTime\<close> returned
  \<open>CLOCK_INVALID\<close>, that is, when the open of the device failed or the open succeeded and
  the read of the hardware time failed. It returns 0 exactly when neither failed and
  \<^verbatim>\<open>localtime\<close> gave a result for each of the three timestamps that \<^verbatim>\<open>PrintTime\<close> is
  called on. It returns no other code.
\<close>

theorem main_exit_code:
  "(fst (main w ts0 ts20) = Exited 1 \<longleftrightarrow>
      os_open w <s 0
      \<or> fst (os_clock_gettime w (FD_TO_CLOCKID (os_open w)) zero_timespec) <s 0)
   \<and> (fst (main w ts0 ts20) = Exited 1 \<longleftrightarrow>
        ret (GetPtpTime w CLOCK_INVALID (Some ts0)) = CLOCK_INVALID)
   \<and> (fst (main w ts0 ts20) = Exited 0 \<longleftrightarrow>
      \<not> (os_open w <s 0
         \<or> fst (os_clock_gettime w (FD_TO_CLOCKID (os_open w)) zero_timespec) <s 0)
      \<and> os_localtime w
           (tv_sec (snd (os_clock_gettime w (FD_TO_CLOCKID (os_open w)) zero_timespec)))
          \<noteq> None
      \<and> os_localtime w (tv_sec (snd (os_clock_gettime w CLOCK_REALTIME ts20))) \<noteq> None
      \<and> os_localtime w (tv_sec (system_clock_timespec (os_now w))) \<noteq> None)
   \<and> (fst (main w ts0 ts20) = Exited code \<longleftrightarrow>
        code = 1 \<and> fst (main w ts0 ts20) = Exited 1
        \<or> code = 0 \<and> fst (main w ts0 ts20) = Exited 0)"
proof (cases "hardware_clock_fails w")
  case True
  then have m: "fst (main w ts0 ts20) = Exited 1"
    by (simp add: main_failure)
  from True have h: "os_open w <s 0
      \<or> fst (os_clock_gettime w (FD_TO_CLOCKID (os_open w)) zero_timespec) <s 0"
    by (simp add: hardware_clock_fails_def)
  from True have r: "ret (GetPtpTime w CLOCK_INVALID (Some ts0)) = CLOCK_INVALID"
    by (simp add: GetPtpTime_ret_first_call)
  show ?thesis
    using h r by (auto simp: m)
next
  case False
  note m = main_success_fst [OF False, of ts0 ts20]
  from False have h: "\<not> (os_open w <s 0
      \<or> fst (os_clock_gettime w (FD_TO_CLOCKID (os_open w)) zero_timespec) <s 0)"
    by (simp add: hardware_clock_fails_def)
  from False have r: "ret (GetPtpTime w CLOCK_INVALID (Some ts0)) \<noteq> CLOCK_INVALID"
    by (simp add: GetPtpTime_ret_first_call)
  show ?thesis
    using h r by (auto simp: m)
qed

theorem main_exit_code_witness:
  "fst (main os_healthy stale_timespec stale_timespec) = Exited 0
   \<and> fst (main os_no_device stale_timespec stale_timespec) = Exited 1"
proof -
  have a: "\<not> (os_open os_healthy <s 0
      \<or> fst (os_clock_gettime os_healthy (FD_TO_CLOCKID (os_open os_healthy)) zero_timespec)
          <s 0)
    \<and> os_localtime os_healthy
         (tv_sec (snd (os_clock_gettime os_healthy (FD_TO_CLOCKID (os_open os_healthy))
                         zero_timespec))) \<noteq> None
    \<and> os_localtime os_healthy
         (tv_sec (snd (os_clock_gettime os_healthy CLOCK_REALTIME stale_timespec))) \<noteq> None
    \<and> os_localtime os_healthy (tv_sec (system_clock_timespec (os_now os_healthy))) \<noteq> None"
    by (simp add: os_healthy_def gettime_ok_def localtime_example_def word_sless_alt
        system_clock_timespec_def signed_divide_int_def)
  have b: "os_open os_no_device <s 0
      \<or> fst (os_clock_gettime os_no_device (FD_TO_CLOCKID (os_open os_no_device))
               zero_timespec) <s 0"
    by (simp add: os_no_device_def word_sless_alt)
  note T = main_exit_code [of os_healthy stale_timespec stale_timespec 0]
  note U = main_exit_code [of os_no_device stale_timespec stale_timespec 1]
  have x: "fst (main os_healthy stale_timespec stale_timespec) = Exited 0"
    by (rule T [THEN conjunct2, THEN conjunct2, THEN conjunct1, THEN iffD2, OF a])
  have y: "fst (main os_no_device stale_timespec stale_timespec) = Exited 1"
    by (rule U [THEN conjunct1, THEN iffD2, OF b])
  show ?thesis
    by (rule conjI [OF x y])
qed

text \<open>
  Claim C2, as the claim states it, fails: with no device, the run ends after the error
  messages; no wall-clock read is made and no timestamp block is written.
\<close>

theorem main_no_device_stops_early:
  "os_open os_no_device <s 0
   \<and> main os_no_device stale_timespec stale_timespec
       = (Exited 1, [SysOpen, OutOpenFd (- 1), ErrOpenFailed, ErrNoClockId])
   \<and> SysClockGettime CLOCK_REALTIME \<notin> set (snd (main os_no_device stale_timespec stale_timespec))
   \<and> SysNow \<notin> set (snd (main os_no_device stale_timespec stale_timespec))"
proof -
  have o: "os_open os_no_device <s 0"
    by (simp add: os_no_device_def word_sless_alt)
  then have "hardware_clock_fails os_no_device"
    by (simp add: hardware_clock_fails_def)
  then have m: "main os_no_device stale_timespec stale_timespec
      = (Exited 1, [SysOpen, OutOpenFd (- 1), ErrOpenFailed, ErrNoClockId])"
    using o by (simp add: main_failure GetPtpTime_open_failed) (simp add: os_no_device_def)
  show ?thesis
    using o by (simp add: m)
qed

text \<open>
  Claim C2, amended. For every run in which the hardware-clock path fails (the open of
  the device fails, or the hardware time read fails), \<^verbatim>\<open>main\<close> returns 1 right after the
  error messages: no wall-clock read is made and no wall-clock line is written.
\<close>

theorem main_hardware_failure_skips_wall_clock:
  "hardware_clock_fails w \<longrightarrow>
      main w ts0 ts20
        = (Exited 1, trace (GetPtpTime w CLOCK_INVALID (Some ts0)) @ [ErrNoClockId])
      \<and> filter is_wall_clock_event (snd (main w ts0 ts20)) = []"
  by (simp add: main_failure GetPtpTime_trace_first_call FD_TO_CLOCKID_not_realtime)

theorem main_hardware_failure_skips_wall_clock_witness:
  "hardware_clock_fails os_read_fails
   \<and> fst (main os_read_fails stale_timespec stale_timespec) = Exited 1
   \<and> filter is_wall_clock_event (snd (main os_read_fails stale_timespec stale_timespec)) = []"
proof -
  have a: "hardware_clock_fails os_read_fails"
    by (simp add: hardware_clock_fails_def os_read_fails_def gettime_fails_def word_sless_alt)
  note A = main_hardware_failure_skips_wall_clock
      [of os_read_fails stale_timespec stale_timespec, THEN mp, OF a]
  have e: "fst (main os_read_fails stale_timespec stale_timespec) = Exited 1"
    using A [THEN conjunct1] by simp
  show ?thesis
    by (rule conjI [OF a conjI [OF e A [THEN conjunct2]]])
qed

text \<open>
  Claim C9, as the claim states it, fails: the C++ remainder has the sign of the
  dividend, so one nanosecond before the epoch the runtime-sourced timestamp has the
  nanoseconds field \<open>- 1\<close>.
\<close>

theorem main_negative_nanoseconds:
  "OutSystemClockTime \<lparr>tv_sec = 0, tv_nsec = - 1\<rparr>
     \<in> set (snd (main os_before_epoch stale_timespec stale_timespec))
   \<and> sint (tv_nsec \<lparr>tv_sec = 0, tv_nsec = - 1 :: clong\<rparr>) < 0"
proof -
  have h: "\<not> hardware_clock_fails os_before_epoch"
    by (simp add: hardware_clock_fails_def os_before_epoch_def gettime_ok_def word_sless_alt)
  have e: "system_clock_timespec (os_now os_before_epoch) = \<lparr>tv_sec = 0, tv_nsec = - 1\<rparr>"
    by (simp add: system_clock_timespec_def os_before_epoch_def smod_int_alt_def
        signed_divide_int_def)
  have l: "PrintTime os_before_epoch (snd (os_clock_gettime os_before_epoch clk b))
      = Some [OutPrintTime 2023 11 14 22 13 20]" for clk b
    by (simp add: PrintTime_def os_before_epoch_def gettime_ok_def localtime_example_def)
  have "OutSystemClockTime (system_clock_timespec (os_now os_before_epoch))
      \<in> set (snd (main os_before_epoch stale_timespec stale_timespec))"
    by (simp add: main_success [OF h refl refl refl refl] l split: option.splits)
  then show ?thesis
    by (simp add: e)
qed

text \<open>
  Claim C9, amended. The runtime-sourced timestamp (seconds \<open>s\<close>, nanoseconds \<open>n\<close>) of a
  run with nanosecond count \<open>d\<close> satisfies \<open>s * 10^9 + n = d\<close> and \<open>|n| \<le> 999999999\<close>; its
  nanoseconds are in \<open>[0, 999999999]\<close> when \<open>d\<close> is not negative. The hardware-clock and
  the OS wall-clock timestamps that are written are the buffers as \<^verbatim>\<open>clock_gettime\<close> left
  them (the hardware one starting from the all-zero buffer): the program does not
  change them, so their nanoseconds are in range when the system's are.
\<close>

theorem main_nanoseconds_range:
  "(OutSystemClockTime t \<in> set (snd (main w ts0 ts20)) \<longrightarrow>
      sint (tv_sec t) * 1000000000 + sint (tv_nsec t) = sint (os_now w)
      \<and> - 999999999 \<le> sint (tv_nsec t) \<and> sint (tv_nsec t) \<le> 999999999
      \<and> (0 \<le> sint (os_now w) \<longrightarrow> 0 \<le> sint (tv_nsec t)))
   \<and> (OutPtpTime u \<in> set (snd (main w ts0 ts20)) \<longrightarrow>
      u = snd (os_clock_gettime w (FD_TO_CLOCKID (os_open w)) zero_timespec))
   \<and> (OutRealTime v \<in> set (snd (main w ts0 ts20)) \<longrightarrow>
      v = snd (os_clock_gettime w CLOCK_REALTIME ts20))"
proof (cases "hardware_clock_fails w")
  case True
  then show ?thesis
    by (simp add: main_failure GetPtpTime_trace_first_call)
next
  case False
  have sys: "sint (tv_sec t) * 1000000000 + sint (tv_nsec t) = sint (os_now w)
      \<and> - 999999999 \<le> sint (tv_nsec t) \<and> sint (tv_nsec t) \<le> 999999999
      \<and> (0 \<le> sint (os_now w) \<longrightarrow> 0 \<le> sint (tv_nsec t))"
    if "t = system_clock_timespec (os_now w)"
  proof -
    have s: "sint (tv_sec t) = sint (os_now w) sdiv 1000000000"
      by (simp add: that system_clock_timespec_def sint_sdiv_word)
    have n: "sint (tv_nsec t) = sint (os_now w) smod 1000000000"
      by (simp add: that system_clock_timespec_def sint_smod_word)
    show ?thesis
      unfolding s n
      using smod_bounds [of "sint (os_now w)"]
        sdiv_mult_smod_eq [of "sint (os_now w)" 1000000000]
      by simp
  qed
  have a: "t = system_clock_timespec (os_now w)"
    if "OutSystemClockTime t \<in> set (snd (main w ts0 ts20))"
    using main_success_events [OF False that] by auto
  have b: "u = snd (os_clock_gettime w (FD_TO_CLOCKID (os_open w)) zero_timespec)"
    if "OutPtpTime u \<in> set (snd (main w ts0 ts20))"
    using main_success_events [OF False that] by auto
  have c: "v = snd (os_clock_gettime w CLOCK_REALTIME ts20)"
    if "OutRealTime v \<in> set (snd (main w ts0 ts20))"
    using main_success_events [OF False that] by auto
  show ?thesis
    using sys a b c by blast
qed

theorem main_nanoseconds_range_witness:
  "OutSystemClockTime \<lparr>tv_sec = 1700000000, tv_nsec = 5\<rparr>
     \<in> set (snd (main os_healthy stale_timespec stale_timespec))
   \<and> 0 \<le> sint (os_now os_healthy)
   \<and> 0 \<le> sint (5 :: clong) \<and> sint (5 :: clong) \<le> 999999999"
proof -
  have h: "\<not> hardware_clock_fails os_healthy"
    by (simp add: hardware_clock_fails_def os_healthy_def gettime_ok_def word_sless_alt)
  have e: "system_clock_timespec (os_now os_healthy) = \<lparr>tv_sec = 1700000000, tv_nsec = 5\<rparr>"
    by (simp add: system_clock_timespec_def os_healthy_def smod_int_alt_def
        signed_divide_int_def)
  have l: "PrintTime os_healthy (snd (os_clock_gettime os_healthy clk b))
      = Some [OutPrintTime 2023 11 14 22 13 20]" for clk b
    by (simp add: PrintTime_def os_healthy_def gettime_ok_def localtime_example_def)
  have "OutSystemClockTime (system_clock_timespec (os_now os_healthy))
      \<in> set (snd (main os_healthy stale_timespec stale_timespec))"
    by (simp add: main_success [OF h refl refl refl refl] l split: option.splits)
  then have m: "OutSystemClockTime \<lparr>tv_sec = 1700000000, tv_nsec = 5\<rparr>
      \<in> set (snd (main os_healthy stale_timespec stale_timespec))"
    by (simp add: e)
  have p: "0 \<le> sint (os_now os_healthy)"
    by (simp add: os_healthy_def)
  note T = main_nanoseconds_range
      [of "\<lparr>tv_sec = 1700000000, tv_nsec = 5\<rparr>" os_healthy stale_timespec stale_timespec,
       THEN conjunct1, THEN mp, OF m]
  have "0 \<le> sint (tv_nsec \<lparr>tv_sec = 1700000000, tv_nsec = 5 :: clong\<rparr>)"
    by (rule T [THEN conjunct2, THEN conjunct2, THEN conjunct2, THEN mp, OF p])
  then show ?thesis
    using m p by simp
qed

end
